theory Spec2Isabelle
  imports Main "HOL-Library.Word"
begin

section \<open>Python values used by pdf\_service.py\<close>

text \<open>
  A Python \<open>str\<close> is a sequence of Unicode code points; it is modelled as a list of
  naturals, so that \<open>len\<close> and \<open>strip\<close> count what Python counts. \<open>ustr\<close> embeds the
  ASCII literals of the source. \<open>bytes\<close> is a list of octets.
\<close>

type_synonym py_str = "nat list"

type_synonym bytes = "8 word list"

definition ustr :: "string \<Rightarrow> py_str" where
  "ustr s = map of_char s"

text \<open>
  \<open>str.isspace\<close> for one code point, as CPython's \<open>Py_UNICODE_ISSPACE\<close> has it:
  U+0009..U+000D, U+001C..U+0020, U+0085, U+00A0, U+1680, U+2000..U+200A, U+2028,
  U+2029, U+202F, U+205F, U+3000.
\<close>

definition py_isspace :: "nat \<Rightarrow> bool" where
  "py_isspace c \<longleftrightarrow>
     (9 \<le> c \<and> c \<le> 13) \<or> (28 \<le> c \<and> c \<le> 32) \<or> c = 133 \<or> c = 160 \<or> c = 5760 \<or>
     (8192 \<le> c \<and> c \<le> 8202) \<or> c = 8232 \<or> c = 8233 \<or> c = 8239 \<or> c = 8287 \<or> c = 12288"

text \<open>\<open>s.strip()\<close>: the longest whitespace prefix and suffix are removed.\<close>

definition py_strip :: "py_str \<Rightarrow> py_str" where
  "py_strip s = rev (dropWhile py_isspace (rev (dropWhile py_isspace s)))"

text \<open>\<open>sep.join(parts)\<close> on a list of strings.\<close>

fun py_join :: "py_str \<Rightarrow> py_str list \<Rightarrow> py_str" where
  "py_join sep [] = []"
| "py_join sep [x] = x"
| "py_join sep (x # y # ys) = x @ sep @ py_join sep (y # ys)"

text \<open>
  The values the service stores in its dictionaries: \<open>None\<close>, an \<open>int\<close> or a \<open>str\<close>.
  A dictionary is an association list in insertion order (the order \<open>json.dumps\<close>
  writes); its keys are the ASCII literals of the source.
\<close>

datatype py_value = PyNone | PyInt int | PyStr py_str

type_synonym py_dict = "(string \<times> py_value) list"

text \<open>Python's truth value of an object (\<open>if x:\<close>).\<close>

fun truthy :: "py_value \<Rightarrow> bool" where
  "truthy PyNone = False"
| "truthy (PyInt n) = (n \<noteq> 0)"
| "truthy (PyStr s) = (s \<noteq> [])"

section \<open>What the service runs on\<close>

text \<open>
  pypdf and pdfplumber are not part of the repository: their behaviour is a parameter.
  Whatever they raise is recorded with \<open>str(e)\<close> and with whether the exception is an
  instance of \<open>Exception\<close> (\<open>KeyboardInterrupt\<close>, \<open>SystemExit\<close> and \<open>GeneratorExit\<close> are
  not, and \<open>except Exception\<close> lets them pass).

  Opening a byte string raises or gives a document; a document is the list of its pages
  (\<open>reader.pages\<close>, \<open>pdf.pages\<close>), and a page is what \<open>page.extract_text()\<close> does on it:
  it raises, or returns \<open>None\<close> or a string.

  The machine is a parameter too: \<open>memory_limit\<close> is the largest number of bytes that
  it lets \<open>rfile.read\<close> allocate for a body.
\<close>

datatype lib_error = LibError (is_Exception: bool) (message: py_str)

type_synonym page = "lib_error + py_str option"

type_synonym document = "page list"

record backend =
  pypdf_PdfReader :: "bytes \<Rightarrow> lib_error + document"
  pdfplumber_open :: "bytes \<Rightarrow> lib_error + document"
  memory_limit :: int

section \<open>Extractor selector (lines 15--25)\<close>

text \<open>
  The nested \<open>try: import ... except ImportError\<close>: pypdf first, pdfplumber second,
  \<open>None\<close> when neither can be imported.
\<close>

definition select_library :: "bool \<Rightarrow> bool \<Rightarrow> py_str option" where
  "select_library pypdf_found pdfplumber_found =
     (if pypdf_found then Some (ustr ''pypdf'')
      else if pdfplumber_found then Some (ustr ''pdfplumber'')
      else None)"

section \<open>Text extraction adapter (lines 28--71)\<close>

text \<open>
  The loop \<open>for page in reader.pages\<close> of both extraction functions: the page's text is
  appended to \<open>text_parts\<close> when it is truthy; an exception of \<open>extract_text()\<close> leaves the
  loop.
\<close>

fun collect_text :: "document \<Rightarrow> py_str list \<Rightarrow> lib_error + py_str list" where
  "collect_text [] text_parts = Inr text_parts"
| "collect_text (page # rest) text_parts =
     (case page of
        Inl e \<Rightarrow> Inl e
      | Inr None \<Rightarrow> collect_text rest text_parts
      | Inr (Some text) \<Rightarrow>
          if text \<noteq> [] then collect_text rest (text_parts @ [text])
          else collect_text rest text_parts)"

definition extract_text_pypdf :: "backend \<Rightarrow> bytes \<Rightarrow> lib_error + (py_str \<times> nat)" where
  "extract_text_pypdf B pdf_bytes =
     (case pypdf_PdfReader B pdf_bytes of
        Inl e \<Rightarrow> Inl e
      | Inr reader \<Rightarrow>
          (let pages = length reader in
           case collect_text reader [] of
             Inl e \<Rightarrow> Inl e
           | Inr text_parts \<Rightarrow> Inr (py_join (ustr ''\<newline>\<newline>'') text_parts, pages)))"

definition extract_text_pdfplumber :: "backend \<Rightarrow> bytes \<Rightarrow> lib_error + (py_str \<times> nat)" where
  "extract_text_pdfplumber B pdf_bytes =
     (case pdfplumber_open B pdf_bytes of
        Inl e \<Rightarrow> Inl e
      | Inr pdf \<Rightarrow>
          (let pages = length pdf in
           case collect_text pdf [] of
             Inl e \<Rightarrow> Inl e
           | Inr text_parts \<Rightarrow> Inr (py_join (ustr ''\<newline>\<newline>'') text_parts, pages)))"

text \<open>
  \<open>extract_text\<close> reads the global \<open>PDF_LIBRARY\<close>, here its second argument. The result is
  \<open>Inr\<close> the dictionary it returns, or \<open>Inl\<close> an exception that \<open>except Exception\<close> does
  not catch and that leaves the function.
\<close>

definition extract_text :: "backend \<Rightarrow> py_str option \<Rightarrow> bytes \<Rightarrow> lib_error + py_dict" where
  "extract_text B lib pdf_bytes =
     (case lib of
        None \<Rightarrow>
          Inr [(''error'', PyStr (ustr ''No PDF library installed'')),
               (''text'', PyStr []), (''pages'', PyInt 0)]
      | Some name \<Rightarrow>
          (case (if name = ustr ''pypdf'' then extract_text_pypdf B pdf_bytes
                 else extract_text_pdfplumber B pdf_bytes) of
             Inr (text, pages) \<Rightarrow>
               Inr [(''text'', PyStr (py_strip text)), (''pages'', PyInt (int pages)),
                    (''library'', PyStr name)]
           | Inl e \<Rightarrow>
               if is_Exception e
               then Inr [(''error'', PyStr (message e)), (''text'', PyStr []), (''pages'', PyInt 0)]
               else Inl e))"

section \<open>Request handler (lines 74--111)\<close>

text \<open>
  What the handler reads of a request: \<open>self.path\<close>, the value of the
  \<open>Content-Length\<close> header (\<open>None\<close> when the header is absent) and the bytes that
  \<open>self.rfile\<close> can still deliver before the end of the stream.
\<close>

record request =
  path :: py_str
  header_content_length :: "py_str option"
  rfile :: bytes

text \<open>
  What \<open>_send_json\<close> writes: the status of \<open>send_response\<close>, the header it sends and
  the dictionary handed to \<open>json.dumps\<close>. The bytes on the wire are
  \<open>json.dumps(data).encode()\<close>, a function of that dictionary.
\<close>

record response =
  status :: int
  headers :: "(string \<times> string) list"
  body :: py_dict

text \<open>The record that \<open>logger.info\<close> emits in \<open>do_POST\<close>: the pages value and the length of the text.\<close>

datatype log_record = ParsedPDF py_value nat

text \<open>
  The state the handler methods work on: the module's global \<open>PDF_LIBRARY\<close>, what
  \<open>_send_json\<close> has written to \<open>self.wfile\<close>, the records of the \<open>logger.info\<close> call
  of \<open>do_POST\<close>, and (as a mock adapter would record it) the argument of every call of
  \<open>extract_text\<close>.
\<close>

record world =
  PDF_LIBRARY :: "py_str option"
  wfile :: "response list"
  logged :: "log_record list"
  extract_calls :: "bytes list"

text \<open>
  The exceptions that can leave a handler method: \<open>ValueError\<close> of \<open>int()\<close> and of
  \<open>rfile.read\<close>, \<open>OverflowError\<close> and \<open>MemoryError\<close> of \<open>rfile.read\<close>, \<open>OSError\<close>
  (\<open>BrokenPipeError\<close>, \<open>ConnectionResetError\<close>) of \<open>wfile.write\<close>, \<open>KeyError\<close> and
  \<open>TypeError\<close> of the lookups in the log line, and an exception of the library that
  \<open>extract_text\<close> did not catch.
\<close>

datatype py_exception =
  ValueError | OverflowError | MemoryError | OSError | KeyError string | TypeError |
  Propagated lib_error

text \<open>
  \<open>int(s)\<close> on a header value. Header values are decoded as ISO-8859-1, so their code
  points are below 256 and the only decimal digits are \<open>0\<close>..\<open>9\<close>. \<open>int\<close> skips
  whitespace on both sides (of the ASCII characters only tab, newline, vertical tab, form
  feed, carriage return and space; any whitespace above U+007E), reads an optional
  sign, and then digits in which single underscores may separate digits. A string of
  more than 4300 digits (the default of \<open>sys.int_info.default_max_str_digits\<close>; sign,
  underscores and whitespace do not count) is refused with \<open>ValueError\<close>, as a string
  that is not a number is.
\<close>

definition int_isspace :: "nat \<Rightarrow> bool" where
  "int_isspace c \<longleftrightarrow> (9 \<le> c \<and> c \<le> 13) \<or> c = 32 \<or> (127 \<le> c \<and> py_isspace c)"

definition is_digit :: "nat \<Rightarrow> bool" where
  "is_digit c \<longleftrightarrow> 48 \<le> c \<and> c \<le> 57"

fun parse_digits :: "py_str \<Rightarrow> int \<Rightarrow> int option" where
  "parse_digits [] acc = Some acc"
| "parse_digits (c # cs) acc =
     (if is_digit c then parse_digits cs (10 * acc + int (c - 48))
      else if c = 95 then
        (case cs of
           [] \<Rightarrow> None
         | d # ds \<Rightarrow> if is_digit d then parse_digits ds (10 * acc + int (d - 48)) else None)
      else None)"

definition py_int :: "py_str \<Rightarrow> py_exception + int" where
  "py_int s =
     (let t = rev (dropWhile int_isspace (rev (dropWhile int_isspace s)));
          negative = (case t of c # _ \<Rightarrow> c = 45 | [] \<Rightarrow> False);
          ds = (case t of c # cs \<Rightarrow> if c = 45 \<or> c = 43 then cs else t | [] \<Rightarrow> [])
      in case ds of
           [] \<Rightarrow> Inl ValueError
         | d # rest \<Rightarrow>
             if is_digit d \<and> length (filter is_digit ds) \<le> 4300 then
               (case parse_digits rest (int (d - 48)) of
                  None \<Rightarrow> Inl ValueError
                | Some n \<Rightarrow> Inr (if negative then - n else n))
             else Inl ValueError)"

text \<open>
  \<open>self.rfile.read(n)\<close> on the buffered reader of the connection, on a 64-bit CPython:
  \<open>ValueError\<close> for a length below \<open>-1\<close>; everything up to the end of the stream for
  \<open>n = -1\<close>; \<open>OverflowError\<close> for a length that is no index or is too large for a byte
  string (above \<open>2^63 - 34\<close>); \<open>MemoryError\<close> for a length the machine does not
  allocate; up to \<open>n\<close> bytes otherwise. The first argument is the machine's limit.
\<close>

definition rfile_read :: "int \<Rightarrow> bytes \<Rightarrow> int \<Rightarrow> py_exception + bytes" where
  "rfile_read limit stream n =
     (if n < - 1 then Inl ValueError
      else if n = - 1 then Inr stream
      else if 2 ^ 63 - 34 < n then Inl OverflowError
      else if limit < n then Inl MemoryError
      else Inr (take (nat n) stream))"

text \<open>
  The peer of the connection takes what \<open>wfile.write\<close> sends, or it has closed the
  connection and the write raises.
\<close>

datatype connection = Accepting | Broken

text \<open>
  \<open>_send_json\<close> on a connection. \<open>wfile\<close> holds the responses that were written in
  full; of a response that the peer did not take nothing is recorded.
\<close>

definition send_json :: "connection \<Rightarrow> py_dict \<Rightarrow> int \<Rightarrow> world \<Rightarrow> py_exception option \<times> world" where
  "send_json c data code w =
     (case c of
        Accepting \<Rightarrow>
          (None, w\<lparr>wfile := wfile w @
                     [\<lparr>status = code, headers = [(''Content-Type'', ''application/json'')],
                       body = data\<rparr>]\<rparr>)
      | Broken \<Rightarrow> (Some OSError, w))"

text \<open>
  \<open>do_GET\<close> on a connection. The first component of the result is the exception that
  leaves the method, \<open>None\<close> when it returns.
\<close>

definition do_GET_on :: "connection \<Rightarrow> request \<Rightarrow> world \<Rightarrow> py_exception option \<times> world" where
  "do_GET_on c r w =
     (if path r = ustr ''/health''
      then send_json c [(''status'', PyStr (ustr ''ok'')),
                        (''library'', (case PDF_LIBRARY w of None \<Rightarrow> PyNone | Some l \<Rightarrow> PyStr l))]
             200 w
      else send_json c [(''error'', PyStr (ustr ''Use POST /parse with PDF data''))] 400 w)"

text \<open>
  The log line of \<open>do_POST\<close> evaluates \<open>result['pages']\<close> and \<open>len(result['text'])\<close>:
  a missing key raises \<open>KeyError\<close>, a text that has no length raises \<open>TypeError\<close>.
\<close>

definition log_parsed :: "py_dict \<Rightarrow> py_exception + log_record" where
  "log_parsed result =
     (case map_of result ''pages'' of
        None \<Rightarrow> Inl (KeyError ''pages'')
      | Some pages \<Rightarrow>
          (case map_of result ''text'' of
             None \<Rightarrow> Inl (KeyError ''text'')
           | Some (PyStr text) \<Rightarrow> Inr (ParsedPDF pages (length text))
           | Some _ \<Rightarrow> Inl TypeError))"

text \<open>
  \<open>do_POST\<close> on a connection. \<open>self.headers.get('Content-Length', 0)\<close> is the header's
  value, or the integer 0 when the header is absent.
\<close>

definition do_POST_on :: "connection \<Rightarrow> backend \<Rightarrow> request \<Rightarrow> world \<Rightarrow> py_exception option \<times> world" where
  "do_POST_on c B r w =
     (if path r \<noteq> ustr ''/parse''
      then send_json c [(''error'', PyStr (ustr ''Unknown endpoint''))] 404 w
      else
        (case (case header_content_length r of None \<Rightarrow> Inr 0 | Some v \<Rightarrow> py_int v) of
           Inl e \<Rightarrow> (Some e, w)
         | Inr content_length \<Rightarrow>
             (if content_length = 0
              then send_json c [(''error'', PyStr (ustr ''No PDF data''))] 400 w
              else
                (case rfile_read (memory_limit B) (rfile r) content_length of
                   Inl e \<Rightarrow> (Some e, w)
                 | Inr pdf_bytes \<Rightarrow>
                     (let w1 = w\<lparr>extract_calls := extract_calls w @ [pdf_bytes]\<rparr> in
                      (case extract_text B (PDF_LIBRARY w1) pdf_bytes of
                         Inl e \<Rightarrow> (Some (Propagated e), w1)
                       | Inr result \<Rightarrow>
                           (if (case map_of result ''error'' of
                                  None \<Rightarrow> False
                                | Some v \<Rightarrow> truthy v)
                            then send_json c result 500 w1
                            else
                              (case log_parsed result of
                                 Inl e \<Rightarrow> (Some e, w1)
                               | Inr entry \<Rightarrow>
                                   send_json c result 200
                                     (w1\<lparr>logged := logged w1 @ [entry]\<rparr>)))))))))"

text \<open>The two methods on a connection whose peer takes the response.\<close>

definition do_GET :: "request \<Rightarrow> world \<Rightarrow> py_exception option \<times> world" where
  "do_GET r w = do_GET_on Accepting r w"

definition do_POST :: "backend \<Rightarrow> request \<Rightarrow> world \<Rightarrow> py_exception option \<times> world" where
  "do_POST B r w = do_POST_on Accepting B r w"

text \<open>
  The two methods the handler class defines, and the dispatch of a request to
  \<open>do_GET\<close> or \<open>do_POST\<close> by its method.
\<close>

datatype http_method = GET | POST


section \<open>Specification side\<close>

text \<open>
  The library selected by a name: \<open>extract_text\<close> takes pypdf for the name \<open>pypdf\<close> and
  pdfplumber for any other.
\<close>

definition selected_open :: "backend \<Rightarrow> py_str \<Rightarrow> bytes \<Rightarrow> lib_error + document" where
  "selected_open B name pdf_bytes =
     (if name = ustr ''pypdf'' then pypdf_PdfReader B pdf_bytes else pdfplumber_open B pdf_bytes)"

text \<open>The exception of the first page, in page order, whose text extraction raises.\<close>

fun first_raise :: "document \<Rightarrow> lib_error option" where
  "first_raise [] = None"
| "first_raise (Inl e # rest) = Some e"
| "first_raise (Inr text # rest) = first_raise rest"

text \<open>
  What the selected library raises on a byte string while it opens the document or
  reads its pages in order; \<open>None\<close> when it raises nothing.
\<close>

definition library_raises :: "backend \<Rightarrow> py_str \<Rightarrow> bytes \<Rightarrow> lib_error option" where
  "library_raises B name pdf_bytes =
     (case selected_open B name pdf_bytes of Inl e \<Rightarrow> Some e | Inr doc \<Rightarrow> first_raise doc)"

text \<open>
  The text of the specification: the texts of the pages in page order (a page that
  yields \<open>None\<close> has the empty text), the empty ones dropped, the others joined with a
  double line break, the whole trimmed.
\<close>

definition page_text :: "page \<Rightarrow> py_str" where
  "page_text p = (case p of Inr (Some text) \<Rightarrow> text | _ \<Rightarrow> [])"

definition joined_text :: "document \<Rightarrow> py_str" where
  "joined_text doc =
     py_strip (py_join (ustr ''\<newline>\<newline>'') (filter (\<lambda>text. text \<noteq> []) (map page_text doc)))"

text \<open>The two shapes a result dictionary can have.\<close>

definition is_success_result :: "py_str option \<Rightarrow> py_dict \<Rightarrow> bool" where
  "is_success_result lib d \<longleftrightarrow>
     map fst d = [''text'', ''pages'', ''library''] \<and>
     (case map_of d ''text'' of Some (PyStr text) \<Rightarrow> True | _ \<Rightarrow> False) \<and>
     (case map_of d ''pages'' of Some (PyInt pages) \<Rightarrow> 0 \<le> pages | _ \<Rightarrow> False) \<and>
     (case lib of None \<Rightarrow> False | Some name \<Rightarrow> map_of d ''library'' = Some (PyStr name))"

definition is_failure_result :: "py_dict \<Rightarrow> bool" where
  "is_failure_result d \<longleftrightarrow>
     map fst d = [''error'', ''text'', ''pages''] \<and>
     (case map_of d ''error'' of Some (PyStr msg) \<Rightarrow> True | _ \<Rightarrow> False) \<and>
     map_of d ''text'' = Some (PyStr []) \<and>
     map_of d ''pages'' = Some (PyInt 0)"


text \<open>The responses that \<open>do_POST\<close> writes for a request, whatever was written before.\<close>

definition written :: "backend \<Rightarrow> request \<Rightarrow> world \<Rightarrow> response list" where
  "written B r w = drop (length (wfile w)) (wfile (snd (do_POST B r w)))"

section \<open>Concrete inputs\<close>

text \<open>
  A machine and its libraries for the examples. pypdf raises on the empty byte string,
  opens a single byte as a document of three pages (the second without text), raises
  with an empty message on two bytes, and opens anything longer as a document whose
  second page cannot be read. pdfplumber raises with an empty message on the empty byte
  string and on two bytes, and opens anything else as a document of two pages, the
  second yielding \<open>None\<close>. A body of up to \<open>2^30\<close> bytes can be allocated.
\<close>

definition demo_backend :: backend where
  "demo_backend =
     \<lparr>pypdf_PdfReader = (\<lambda>pdf_bytes.
        (case pdf_bytes of
           [] \<Rightarrow> Inl (LibError True (ustr ''Cannot read an empty file''))
         | [a] \<Rightarrow> Inr [Inr (Some (ustr '' Hello'')), Inr (Some []), Inr (Some (ustr ''World ''))]
         | [a, b] \<Rightarrow> Inl (LibError True [])
         | _ \<Rightarrow> Inr [Inr (Some (ustr ''Hello'')), Inl (LibError True (ustr ''File has not been decrypted''))])),
      pdfplumber_open = (\<lambda>pdf_bytes.
        (case pdf_bytes of
           [] \<Rightarrow> Inl (LibError True [])
         | [a, b] \<Rightarrow> Inl (LibError True [])
         | _ \<Rightarrow> Inr [Inr (Some (ustr ''Hello'')), Inr None])),
      memory_limit = 2 ^ 30\<rparr>"


definition parse_request :: "string \<Rightarrow> bytes \<Rightarrow> request" where
  "parse_request v stream =
     \<lparr>path = ustr ''/parse'', header_content_length = Some (ustr v), rfile = stream\<rparr>"

definition start_world :: "py_str option \<Rightarrow> world" where
  "start_world lib = \<lparr>PDF_LIBRARY = lib, wfile = [], logged = [], extract_calls = []\<rparr>"

section \<open>Strings\<close>

lemma ustr_eq_iff [simp]: "ustr a = ustr b \<longleftrightarrow> a = b"
  unfolding ustr_def by (rule inj_map_eq_map) (simp add: inj_def)

lemma ustr_Nil_iff [simp]: "ustr a = [] \<longleftrightarrow> a = []"
  by (simp add: ustr_def)

text \<open>\<open>strip\<close> removes a whitespace prefix and a whitespace suffix, and nothing else.\<close>

lemma py_strip_decomposition:
  "\<exists>pre suf. s = pre @ py_strip s @ suf \<and> list_all py_isspace pre \<and> list_all py_isspace suf"
proof -
  let ?t = "dropWhile py_isspace s"
  have s: "s = takeWhile py_isspace s @ ?t"
    by simp
  have t: "?t = py_strip s @ rev (takeWhile py_isspace (rev ?t))"
    unfolding py_strip_def by (metis rev_append rev_rev_ident takeWhile_dropWhile_id)
  have "s = takeWhile py_isspace s @ py_strip s @ rev (takeWhile py_isspace (rev ?t))"
    using s t by metis
  moreover have "list_all py_isspace (takeWhile py_isspace s)"
    by (simp add: list_all_iff) (meson set_takeWhileD)
  moreover have "list_all py_isspace (rev (takeWhile py_isspace (rev ?t)))"
    by (simp add: list_all_iff) (meson set_takeWhileD)
  ultimately show ?thesis
    by blast
qed

text \<open>What \<open>strip\<close> leaves neither starts nor ends with whitespace.\<close>

lemma py_strip_ends:
  assumes "py_strip s \<noteq> []"
  shows "\<not> py_isspace (hd (py_strip s)) \<and> \<not> py_isspace (last (py_strip s))"
proof -
  let ?t = "dropWhile py_isspace s"
  let ?u = "dropWhile py_isspace (rev ?t)"
  have u: "?u \<noteq> []"
    using assms by (simp add: py_strip_def)
  then have last: "\<not> py_isspace (hd ?u)"
    by (rule hd_dropWhile)
  have d: "?t \<noteq> []"
  proof
    assume "?t = []"
    then have "?u = []"
      by (simp only: rev.simps dropWhile.simps)
    with u show False ..
  qed
  then have first: "\<not> py_isspace (hd ?t)"
    by (rule hd_dropWhile)
  have "?t = rev ?u @ rev (takeWhile py_isspace (rev ?t))"
    by (metis rev_append rev_rev_ident takeWhile_dropWhile_id)
  then have "hd ?t = hd (rev ?u)"
    using u by (metis hd_append2 rev_is_Nil_conv)
  then have "\<not> py_isspace (hd (py_strip s))"
    using first by (simp add: py_strip_def)
  moreover have "\<not> py_isspace (last (py_strip s))"
    using last u by (simp add: py_strip_def last_rev)
  ultimately show ?thesis
    by simp
qed

section \<open>The adapter\<close>


lemma collect_text_ok:
  "first_raise doc = None \<Longrightarrow>
   collect_text doc acc = Inr (acc @ filter (\<lambda>text. text \<noteq> []) (map page_text doc))"
  by (induction doc arbitrary: acc rule: first_raise.induct)
     (auto simp: page_text_def split: option.splits)


lemma extract_text_ok:
  assumes "selected_open B name pdf_bytes = Inr doc" and "first_raise doc = None"
  shows "extract_text B (Some name) pdf_bytes =
     Inr [(''text'', PyStr (joined_text doc)), (''pages'', PyInt (int (length doc))),
          (''library'', PyStr name)]"
  using assms
  by (auto simp: extract_text_def extract_text_pypdf_def extract_text_pdfplumber_def
      selected_open_def collect_text_ok joined_text_def split: sum.splits if_splits)

lemma extract_text_cases:
  assumes "extract_text B lib pdf_bytes = Inr d"
  shows "(\<exists>name text pages. lib = Some name \<and>
            d = [(''text'', PyStr text), (''pages'', PyInt (int pages)), (''library'', PyStr name)]) \<or>
         (\<exists>msg. d = [(''error'', PyStr msg), (''text'', PyStr []), (''pages'', PyInt 0)])"
  using assms
  by (auto simp: extract_text_def split: option.splits sum.splits if_splits prod.splits)


section \<open>The handler\<close>

lemma log_parsed_result:
  assumes "extract_text B lib pdf_bytes = Inr d"
  shows "\<exists>entry. log_parsed d = Inr entry"
  using extract_text_cases [OF assms] by (auto simp: log_parsed_def)



text \<open>The conversions of the header values used in the examples.\<close>

lemma demo_values:
  "py_int (ustr ''5'') = Inr 5"
  "py_int (ustr ''3'') = Inr 3"
  "py_int (ustr ''2'') = Inr 2"
  "py_int (ustr ''0'') = Inr 0"
  "py_int (ustr ''abc'') = Inl ValueError"
  "py_int (ustr ''9223372036854775808'') = Inr 9223372036854775808"
  "py_int (ustr ''4611686018427387904'') = Inr 4611686018427387904"
  by (simp_all add: py_int_def ustr_def int_isspace_def py_isspace_def is_digit_def)

section \<open>Decoding failures (claim C1)\<close>

text \<open>
  Claim C1 says that whenever the selected library raises an error while it opens or
  reads the document, \<open>extract_text\<close> returns the result whose \<open>error\<close> is the message of
  the exception, with \<open>text = ""\<close> and \<open>pages = 0\<close>, and that \<open>POST /parse\<close> answers that
  result with status 500. The adapter does so (\<open>extract_text_raise\<close>); the handler does
  not when the message is empty. On a body of two bytes pypdf raises an exception
  without a message: the result is the failure result, its \<open>error\<close> is falsy, and
  \<open>do_POST\<close> logs a parsed document of 0 pages and answers with status 200.
\<close>

theorem empty_message_answered_200:
  "library_raises demo_backend (ustr ''pypdf'') [1, 2] = Some (LibError True []) \<and>
   extract_text demo_backend (Some (ustr ''pypdf'')) [1, 2] =
     Inr [(''error'', PyStr []), (''text'', PyStr []), (''pages'', PyInt 0)] \<and>
   do_POST demo_backend (parse_request ''2'' [1, 2]) (start_world (Some (ustr ''pypdf''))) =
     (None, \<lparr>PDF_LIBRARY = Some (ustr ''pypdf''),
             wfile = [\<lparr>status = 200, headers = [(''Content-Type'', ''application/json'')],
                       body = [(''error'', PyStr []), (''text'', PyStr []), (''pages'', PyInt 0)]\<rparr>],
             logged = [ParsedPDF (PyInt 0) 0], extract_calls = [[1, 2]]\<rparr>)"
  by (simp add: library_raises_def selected_open_def demo_backend_def
      parse_request_def start_world_def demo_values do_POST_def do_POST_on_def rfile_read_def
      extract_text_def extract_text_pypdf_def log_parsed_def send_json_def)

section \<open>The extracted text (claim C2)\<close>

text \<open>
  Claim C2, as the code has it. For every document that the selected library opens and
  whose pages it all reads without raising, the \<open>text\<close> of the result is the text of
  the specification (the page texts in page order, the empty ones dropped, the others
  joined with a double line break, the whole trimmed), \<open>pages\<close> is the number of pages
  of the document, whatever the number of joined segments, and \<open>library\<close> is the
  selection.
\<close>

theorem text_joined_and_trimmed:
  assumes "selected_open B name pdf_bytes = Inr doc" and "first_raise doc = None"
  shows "extract_text B (Some name) pdf_bytes =
           Inr [(''text'', PyStr (joined_text doc)), (''pages'', PyInt (int (length doc))),
                (''library'', PyStr name)]"
  using assms by (rule extract_text_ok)

text \<open>
  The theorem on a document of three pages, the second without text: two segments are
  joined, the page count is three, and the blanks around the joined text are gone.
\<close>

theorem text_joined_and_trimmed_witness:
  "selected_open demo_backend (ustr ''pypdf'') [7] =
     Inr [Inr (Some (ustr '' Hello'')), Inr (Some []), Inr (Some (ustr ''World ''))] \<and>
   first_raise [Inr (Some (ustr '' Hello'')), Inr (Some []), Inr (Some (ustr ''World ''))] = None \<and>
   extract_text demo_backend (Some (ustr ''pypdf'')) [7] =
     Inr [(''text'', PyStr (ustr ''Hello\<newline>\<newline>World'')), (''pages'', PyInt 3),
          (''library'', PyStr (ustr ''pypdf''))]"
  using text_joined_and_trimmed [of demo_backend "ustr ''pypdf''" "[7]"
      "[Inr (Some (ustr '' Hello'')), Inr (Some []), Inr (Some (ustr ''World ''))]"]
  by (simp add: selected_open_def demo_backend_def joined_text_def page_text_def)
     (simp add: ustr_def py_strip_def py_isspace_def)

text \<open>
  Claim C2 as stated fails on a document that opens but has a page whose extraction
  raises: the exception is caught, and the result has \<open>pages = 0\<close> and an empty text
  although the document has two pages and the first has text.
\<close>

theorem unreadable_page_loses_page_count:
  "selected_open demo_backend (ustr ''pypdf'') [1, 2, 3] =
     Inr [Inr (Some (ustr ''Hello'')), Inl (LibError True (ustr ''File has not been decrypted''))] \<and>
   extract_text demo_backend (Some (ustr ''pypdf'')) [1, 2, 3] =
     Inr [(''error'', PyStr (ustr ''File has not been decrypted'')), (''text'', PyStr []),
          (''pages'', PyInt 0)]"
  by (simp add: selected_open_def demo_backend_def extract_text_def extract_text_pypdf_def)

section \<open>Parsing a body (claim C3)\<close>

text \<open>
  Claim C3 says that for a \<open>POST /parse\<close> request with a body the handler calls the
  adapter exactly once, on the bytes of the body, and answers with the whole result:
  with status 500 when the result carries a non-empty \<open>error\<close>, and otherwise with status
  200 and the fields \<open>text\<close>, \<open>pages\<close> and \<open>library\<close>. The handler calls the adapter once
  and answers with the result (\<open>do_POST_answers_result\<close>), but a result answered with 200
  need not be a success: on a body of two bytes pdfplumber raises an exception without
  a message, and the answer has status 200 and the fields \<open>error\<close>, \<open>text\<close> and \<open>pages\<close>.
\<close>

theorem status_200_without_library_field:
  "py_int (ustr ''2'') = Inr 2 \<and>
   rfile_read (memory_limit demo_backend) [1, 2] 2 = Inr [1, 2] \<and>
   extract_calls (snd (do_POST demo_backend (parse_request ''2'' [1, 2])
                        (start_world (Some (ustr ''pdfplumber''))))) = [[1, 2]] \<and>
   wfile (snd (do_POST demo_backend (parse_request ''2'' [1, 2])
                 (start_world (Some (ustr ''pdfplumber''))))) =
     [\<lparr>status = 200, headers = [(''Content-Type'', ''application/json'')],
       body = [(''error'', PyStr []), (''text'', PyStr []), (''pages'', PyInt 0)]\<rparr>]"
  by (simp add: demo_backend_def parse_request_def start_world_def demo_values
      do_POST_def do_POST_on_def rfile_read_def extract_text_def extract_text_pdfplumber_def
      log_parsed_def send_json_def)

section \<open>Empty bodies (claim C4)\<close>

text \<open>
  Claim C4. For every \<open>POST /parse\<close> request whose \<open>Content-Length\<close> header is absent or
  converts to zero, the handler answers status 400 with the body
  \<open>{"error": "No PDF data"}\<close>, returns, and has not called the adapter.
\<close>

theorem empty_body_rejected:
  assumes "path r = ustr ''/parse''"
    and "header_content_length r = None \<or>
         (\<exists>v. header_content_length r = Some v \<and> py_int v = Inr 0)"
  shows "do_POST B r w =
           (None, w\<lparr>wfile := wfile w @
                      [\<lparr>status = 400, headers = [(''Content-Type'', ''application/json'')],
                        body = [(''error'', PyStr (ustr ''No PDF data''))]\<rparr>]\<rparr>) \<and>
         extract_calls (snd (do_POST B r w)) = extract_calls w"
  using assms by (auto simp: do_POST_def do_POST_on_def send_json_def)

text \<open>The theorem on a request that declares the length 0, and on one without the header.\<close>

theorem empty_body_rejected_witness:
  "py_int (ustr ''0'') = Inr 0 \<and>
   do_POST demo_backend (parse_request ''0'' [1, 2, 3]) (start_world (Some (ustr ''pypdf''))) =
     (None, \<lparr>PDF_LIBRARY = Some (ustr ''pypdf''),
             wfile = [\<lparr>status = 400, headers = [(''Content-Type'', ''application/json'')],
                       body = [(''error'', PyStr (ustr ''No PDF data''))]\<rparr>],
             logged = [], extract_calls = []\<rparr>) \<and>
   do_POST demo_backend \<lparr>path = ustr ''/parse'', header_content_length = None, rfile = [1, 2, 3]\<rparr>
       (start_world (Some (ustr ''pypdf''))) =
     (None, \<lparr>PDF_LIBRARY = Some (ustr ''pypdf''),
             wfile = [\<lparr>status = 400, headers = [(''Content-Type'', ''application/json'')],
                       body = [(''error'', PyStr (ustr ''No PDF data''))]\<rparr>],
             logged = [], extract_calls = []\<rparr>)"
  using empty_body_rejected [of "parse_request ''0'' [1, 2, 3]" demo_backend
      "start_world (Some (ustr ''pypdf''))"]
    empty_body_rejected [of "\<lparr>path = ustr ''/parse'', header_content_length = None, rfile = [1, 2, 3]\<rparr>"
      demo_backend "start_world (Some (ustr ''pypdf''))"]
  by (simp add: parse_request_def start_world_def demo_values)

section \<open>No library (claim C5)\<close>

text \<open>
  Claim C5. When no library was selected (the selector found neither, and the flag is
  \<open>None\<close>), \<open>extract_text\<close> returns the result with
  \<open>error = "No PDF library installed"\<close>, \<open>text = ""\<close> and \<open>pages = 0\<close> for every byte
  string; the result is the same whatever the libraries would do and whatever the bytes
  are, so nothing is decoded.
\<close>

theorem no_library_no_decoding:
  "select_library False False = None \<and>
   extract_text B None pdf_bytes =
     Inr [(''error'', PyStr (ustr ''No PDF library installed'')), (''text'', PyStr []),
          (''pages'', PyInt 0)] \<and>
   extract_text B None pdf_bytes = extract_text B' None pdf_bytes'"
  by (simp add: select_library_def extract_text_def)

section \<open>Health check (claim C6)\<close>

text \<open>
  Claim C6. Every \<open>GET /health\<close> request is answered with status 200 and the body
  \<open>{"status": "ok", "library": s}\<close>, where \<open>s\<close> is the selection or \<open>null\<close>, whatever
  the selection is, and the adapter is not called.
\<close>

theorem health_always_ok:
  assumes "path r = ustr ''/health''"
  shows "do_GET r w =
           (None, w\<lparr>wfile := wfile w @
                      [\<lparr>status = 200, headers = [(''Content-Type'', ''application/json'')],
                        body = [(''status'', PyStr (ustr ''ok'')),
                                (''library'', (case PDF_LIBRARY w of None \<Rightarrow> PyNone
                                               | Some l \<Rightarrow> PyStr l))]\<rparr>]\<rparr>) \<and>
         extract_calls (snd (do_GET r w)) = extract_calls w"
  using assms by (simp add: do_GET_def do_GET_on_def send_json_def)

text \<open>The theorem without a library, and with pdfplumber selected.\<close>

theorem health_always_ok_witness:
  "do_GET \<lparr>path = ustr ''/health'', header_content_length = None, rfile = []\<rparr> (start_world None) =
     (None, \<lparr>PDF_LIBRARY = None,
             wfile = [\<lparr>status = 200, headers = [(''Content-Type'', ''application/json'')],
                       body = [(''status'', PyStr (ustr ''ok'')), (''library'', PyNone)]\<rparr>],
             logged = [], extract_calls = []\<rparr>) \<and>
   do_GET \<lparr>path = ustr ''/health'', header_content_length = None, rfile = []\<rparr>
       (start_world (select_library False True)) =
     (None, \<lparr>PDF_LIBRARY = Some (ustr ''pdfplumber''),
             wfile = [\<lparr>status = 200, headers = [(''Content-Type'', ''application/json'')],
                       body = [(''status'', PyStr (ustr ''ok'')),
                               (''library'', PyStr (ustr ''pdfplumber''))]\<rparr>],
             logged = [], extract_calls = []\<rparr>)"
  using health_always_ok [of "\<lparr>path = ustr ''/health'', header_content_length = None, rfile = []\<rparr>"
      "start_world None"]
    health_always_ok [of "\<lparr>path = ustr ''/health'', header_content_length = None, rfile = []\<rparr>"
      "start_world (select_library False True)"]
  by (simp add: start_world_def select_library_def)

section \<open>Unknown routes (claim C7)\<close>

text \<open>
  Claim C7. A \<open>GET\<close> request to a path other than \<open>/health\<close> is answered with status 400
  and the body \<open>{"error": "Use POST /parse with PDF data"}\<close>; a \<open>POST\<close> request to a path
  other than \<open>/parse\<close> is answered with status 404 and the body
  \<open>{"error": "Unknown endpoint"}\<close>; in both cases the adapter is not called.
\<close>

theorem unknown_routes_rejected:
  "(path r \<noteq> ustr ''/health'' \<longrightarrow>
      do_GET r w =
        (None, w\<lparr>wfile := wfile w @
                   [\<lparr>status = 400, headers = [(''Content-Type'', ''application/json'')],
                     body = [(''error'', PyStr (ustr ''Use POST /parse with PDF data''))]\<rparr>]\<rparr>) \<and>
      extract_calls (snd (do_GET r w)) = extract_calls w) \<and>
   (path r \<noteq> ustr ''/parse'' \<longrightarrow>
      do_POST B r w =
        (None, w\<lparr>wfile := wfile w @
                   [\<lparr>status = 404, headers = [(''Content-Type'', ''application/json'')],
                     body = [(''error'', PyStr (ustr ''Unknown endpoint''))]\<rparr>]\<rparr>) \<and>
      extract_calls (snd (do_POST B r w)) = extract_calls w)"
  by (simp add: do_GET_def do_GET_on_def do_POST_def do_POST_on_def send_json_def)

text \<open>The theorem on \<open>GET /parse\<close> and on \<open>POST /health\<close>.\<close>

theorem unknown_routes_rejected_witness:
  "do_GET \<lparr>path = ustr ''/parse'', header_content_length = None, rfile = []\<rparr>
       (start_world (Some (ustr ''pypdf''))) =
     (None, \<lparr>PDF_LIBRARY = Some (ustr ''pypdf''),
             wfile = [\<lparr>status = 400, headers = [(''Content-Type'', ''application/json'')],
                       body = [(''error'', PyStr (ustr ''Use POST /parse with PDF data''))]\<rparr>],
             logged = [], extract_calls = []\<rparr>) \<and>
   do_POST demo_backend \<lparr>path = ustr ''/health'', header_content_length = Some (ustr ''abc''),
                          rfile = [1, 2, 3]\<rparr>
       (start_world (Some (ustr ''pypdf''))) =
     (None, \<lparr>PDF_LIBRARY = Some (ustr ''pypdf''),
             wfile = [\<lparr>status = 404, headers = [(''Content-Type'', ''application/json'')],
                       body = [(''error'', PyStr (ustr ''Unknown endpoint''))]\<rparr>],
             logged = [], extract_calls = []\<rparr>)"
  using unknown_routes_rejected [of "\<lparr>path = ustr ''/parse'', header_content_length = None, rfile = []\<rparr>"
      "start_world (Some (ustr ''pypdf''))" demo_backend]
    unknown_routes_rejected [of "\<lparr>path = ustr ''/health'', header_content_length = Some (ustr ''abc''),
                          rfile = [1, 2, 3]\<rparr>"
      "start_world (Some (ustr ''pypdf''))" demo_backend]
  by (simp add: start_world_def)

section \<open>Repeated requests (claim C8)\<close>

text \<open>
  \<open>do_POST\<close> reads nothing of the state but \<open>PDF_LIBRARY\<close>, and does not assign it.
\<close>

lemma do_POST_same_library:
  assumes "PDF_LIBRARY w' = PDF_LIBRARY w"
  shows "fst (do_POST B r w') = fst (do_POST B r w) \<and> written B r w' = written B r w"
  using assms unfolding written_def do_POST_def do_POST_on_def send_json_def
  by (auto split: sum.splits option.splits simp: Let_def)

lemma do_POST_keeps_library: "PDF_LIBRARY (snd (do_POST B r w)) = PDF_LIBRARY w"
  unfolding do_POST_def do_POST_on_def send_json_def
  by (auto split: sum.splits option.splits simp: Let_def)

text \<open>
  Claim C8. For every selection and every request, handling the same request a second
  time, in the state the first handling has left, writes the same responses and ends
  the same way, and the selection is unchanged: what has been written, logged or
  extracted before has no influence. The bytes of a response are \<open>json.dumps\<close> of its
  body, so equal responses are equal byte for byte. The libraries are functions of the
  bytes they are given.
\<close>

theorem parse_twice_same_response:
  "fst (do_POST B r (snd (do_POST B r w))) = fst (do_POST B r w) \<and>
   written B r (snd (do_POST B r w)) = written B r w \<and>
   PDF_LIBRARY (snd (do_POST B r w)) = PDF_LIBRARY w"
  using do_POST_same_library [OF do_POST_keeps_library] do_POST_keeps_library by blast

section \<open>What leaves the handler (claim C9)\<close>






section \<open>The shape of a result (claim C10)\<close>

text \<open>
  Claim C10. Every dictionary that \<open>extract_text\<close> returns has exactly one of two
  shapes: the success shape, with the keys \<open>text\<close> (a string), \<open>pages\<close> (an integer that
  is not negative) and \<open>library\<close> (the selection) and no other key, or the failure shape,
  with the keys \<open>error\<close> (a string), \<open>text = ""\<close> and \<open>pages = 0\<close> and no other key; no
  result has both the key \<open>library\<close> and the key \<open>error\<close>.
\<close>

theorem result_has_one_shape:
  assumes "extract_text B lib pdf_bytes = Inr d"
  shows "(is_success_result lib d \<or> is_failure_result d) \<and>
         \<not> (is_success_result lib d \<and> is_failure_result d) \<and>
         \<not> (''library'' \<in> set (map fst d) \<and> ''error'' \<in> set (map fst d))"
  using extract_text_cases [OF assms]
  by (auto simp: is_success_result_def is_failure_result_def)

text \<open>The theorem on an upload that pdfplumber reads.\<close>

theorem result_has_one_shape_witness:
  "extract_text demo_backend (Some (ustr ''pdfplumber'')) [9] =
     Inr [(''text'', PyStr (ustr ''Hello'')), (''pages'', PyInt 2),
          (''library'', PyStr (ustr ''pdfplumber''))] \<and>
   is_success_result (Some (ustr ''pdfplumber''))
     [(''text'', PyStr (ustr ''Hello'')), (''pages'', PyInt 2),
      (''library'', PyStr (ustr ''pdfplumber''))] \<and>
   \<not> is_failure_result
     [(''text'', PyStr (ustr ''Hello'')), (''pages'', PyInt 2),
      (''library'', PyStr (ustr ''pdfplumber''))]"
proof -
  have result: "extract_text demo_backend (Some (ustr ''pdfplumber'')) [9] =
     Inr [(''text'', PyStr (ustr ''Hello'')), (''pages'', PyInt 2),
          (''library'', PyStr (ustr ''pdfplumber''))]"
    by (simp add: extract_text_def extract_text_pdfplumber_def demo_backend_def
        py_strip_def py_isspace_def ustr_def)
  have "\<not> is_failure_result
     [(''text'', PyStr (ustr ''Hello'')), (''pages'', PyInt 2),
      (''library'', PyStr (ustr ''pdfplumber''))]"
    by (simp add: is_failure_result_def)
  then show ?thesis
    using result_has_one_shape [OF result] result by blast
qed

end
